theory Spec2Isabelle
  imports Main "HOL-Library.Stream"
begin

section \<open>The URL shortener of main.go\<close>

text \<open>
  The program keeps three pieces of state behind one mutex: the map \<open>shortURLs\<close> (the
  fast tier), the global source of math/rand, and whatever sits behind the handle
  \<open>collection\<close> (the durable tier). Every handler locks \<open>mu\<close> on entry and unlocks it on
  return, so a handler is one atomic step from state to state, and that is how it is
  modelled: a function from the state and the request to the response and the new
  state. A panic is the value \<open>None\<close>.
\<close>

subsection \<open>The random source\<close>

text \<open>
  math/rand is the standard library's. Its state is taken as the stream of the numbers
  that its coming calls will draw; \<open>rand.Intn n\<close> returns the next one reduced into
  \<open>[0, n)\<close> and panics for \<open>n \<le> 0\<close>, which is the contract its documentation gives.
\<close>

type_synonym rng = "nat stream"

definition Intn :: "nat \<Rightarrow> rng \<Rightarrow> (nat \<times> rng) option" where
  "Intn n r = (if n = 0 then None else Some (shd r mod n, stl r))"

subsection \<open>generateShortCode\<close>

definition charset :: string where
  "charset = ''abcdefghijklmnopqrstuvwxyzABCDEFGHIJKLMNOPQRSTUVWXYZ0123456789''"

definition codeLength :: nat where
  "codeLength = 6"

text \<open>\<open>charset[k]\<close>: an index out of range panics.\<close>

definition index :: "string \<Rightarrow> nat \<Rightarrow> char option" where
  "index cs k = (if k < length cs then Some (cs ! k) else None)"

text \<open>
  The loop \<open>for i := range b\<close>, over the indices still to visit: each round draws one
  number and stores the character at position \<open>i\<close> of \<open>b\<close>.
\<close>

fun fill :: "nat list \<Rightarrow> char list \<Rightarrow> rng \<Rightarrow> (char list \<times> rng) option" where
  "fill [] b r = Some (b, r)"
| "fill (i # is) b r =
     (case Intn (length charset) r of
        None \<Rightarrow> None
      | Some (k, r') \<Rightarrow>
          (case index charset k of
             None \<Rightarrow> None
           | Some c \<Rightarrow> if i < length b then fill is (b[i := c]) r' else None))"

definition generateShortCode :: "rng \<Rightarrow> (string \<times> rng) option" where
  "generateShortCode r = fill [0..<codeLength] (replicate codeLength (CHR 0x00)) r"

text \<open>The alphabet the specification names: a to z, A to Z, 0 to 9, by character code.\<close>

definition alnum :: "char \<Rightarrow> bool" where
  "alnum c = (let n = (of_char c :: nat) in
     (97 \<le> n \<and> n \<le> 122) \<or> (65 \<le> n \<and> n \<le> 90) \<or> (48 \<le> n \<and> n \<le> 57))"

subsection \<open>Requests and responses\<close>

text \<open>
  Of a request the handlers read the path and the form values. \<open>r.FormValue key\<close> is
  the first value sent under \<open>key\<close>, the empty string when there is none.
\<close>

record request =
  Path :: string
  Form :: "(string \<times> string) list"

definition FormValue :: "request \<Rightarrow> string \<Rightarrow> string" where
  "FormValue r key = (case map_of (Form r) key of None \<Rightarrow> [] | Some v \<Rightarrow> v)"

text \<open>
  A response is the call the handler makes on the response writer: \<open>http.Redirect\<close> with
  its target and status, or \<open>http.Error\<close> with its message and status. \<open>http.NotFound\<close>
  is \<open>http.Error\<close> with the fixed message below.
\<close>

datatype response = Redirect string nat | Error string nat

definition StatusSeeOther :: nat where "StatusSeeOther = 303"
definition StatusBadRequest :: nat where "StatusBadRequest = 400"
definition StatusNotFound :: nat where "StatusNotFound = 404"
definition StatusInternalServerError :: nat where "StatusInternalServerError = 500"

definition NotFound :: response where
  "NotFound = Error ''404 page not found'' StatusNotFound"

subsection \<open>The durable tier\<close>

record URLMapping =
  Code :: string
  URL :: string

text \<open>A Go \<open>error\<close> is kept as the message that \<open>%v\<close> prints.\<close>

type_synonym error = string

text \<open>
  The MongoDB driver is not part of the program. The handle \<open>collection\<close> is a parameter
  of the model: two operations on a durable state of any type \<open>'d\<close>. \<open>InsertOne\<close>
  gives the error or nil, \<open>FindOne\<close> with \<open>Decode\<close> gives the error or the decoded
  document, and each also gives the durable state after the call.
\<close>

record 'd Collection =
  InsertOne :: "'d \<Rightarrow> URLMapping \<Rightarrow> error option \<times> 'd"
  FindOne :: "'d \<Rightarrow> string \<Rightarrow> (error + URLMapping) \<times> 'd"

datatype call = CallInsertOne URLMapping | CallFindOne string

subsection \<open>The state\<close>

text \<open>
  \<open>calls\<close> is the sequence of calls made on \<open>collection\<close> so far and \<open>logged\<close> the
  messages given to \<open>log.Printf\<close>; both only grow.
\<close>

record 'd state =
  shortURLs :: "string \<rightharpoonup> string"
  source :: rng
  durable :: 'd
  calls :: "call list"
  logged :: "string list"

subsection \<open>saveToMongoDB and findInMongoDB\<close>

definition saveToMongoDB ::
  "'d Collection \<Rightarrow> string \<Rightarrow> string \<Rightarrow> 'd state \<Rightarrow> error option \<times> 'd state" where
  "saveToMongoDB coll code url s =
     (let doc = \<lparr>Code = code, URL = url\<rparr>;
          (err, d) = InsertOne coll (durable s) doc;
          s1 = s\<lparr>durable := d, calls := calls s @ [CallInsertOne doc]\<rparr>
      in case err of
           Some e \<Rightarrow> (Some e, s1\<lparr>logged := logged s1 @ [''Error saving to MongoDB: '' @ e]\<rparr>)
         | None \<Rightarrow> (None, s1))"

definition findInMongoDB ::
  "'d Collection \<Rightarrow> string \<Rightarrow> 'd state \<Rightarrow> (string \<times> error option) \<times> 'd state" where
  "findInMongoDB coll code s =
     (let (res, d) = FindOne coll (durable s) code;
          s1 = s\<lparr>durable := d, calls := calls s @ [CallFindOne code]\<rparr>
      in case res of
           Inl e \<Rightarrow>
             (([], Some e), s1\<lparr>logged := logged s1 @ [''Error finding URL in MongoDB: '' @ e]\<rparr>)
         | Inr result \<Rightarrow> ((URL result, None), s1))"

subsection \<open>shortenHandler and redirectHandler\<close>

definition shortenHandler ::
  "'d Collection \<Rightarrow> 'd state \<Rightarrow> request \<Rightarrow> (response \<times> 'd state) option" where
  "shortenHandler coll s r =
     (let url = FormValue r ''url'' in
      if url = [] then Some (Error ''URL cannot be empty'' StatusBadRequest, s)
      else
        case generateShortCode (source s) of
          None \<Rightarrow> None
        | Some (shortCode, g) \<Rightarrow>
            (let s1 = s\<lparr>source := g, shortURLs := (shortURLs s)(shortCode \<mapsto> url)\<rparr> in
             case saveToMongoDB coll shortCode url s1 of
               (Some err, s2) \<Rightarrow>
                 Some (Error ''Failed to save to database'' StatusInternalServerError,
                       s2\<lparr>logged := logged s2 @ [''Failed to save to database: '' @ err]\<rparr>)
             | (None, s2) \<Rightarrow> Some (Redirect ''/'' StatusSeeOther, s2)))"

text \<open>\<open>r.URL.Path[1:]\<close> panics on the empty path; otherwise it drops the first byte.\<close>

definition redirectHandler ::
  "'d Collection \<Rightarrow> 'd state \<Rightarrow> request \<Rightarrow> (response \<times> 'd state) option" where
  "redirectHandler coll s r =
     (if Path r = [] then None
      else
        let shortCode = drop 1 (Path r) in
        case shortURLs s shortCode of
          Some originalURL \<Rightarrow> Some (Redirect originalURL StatusSeeOther, s)
        | None \<Rightarrow>
            (case findInMongoDB coll shortCode s of
               ((url, err), s1) \<Rightarrow>
                 if err = None \<and> url \<noteq> [] then Some (Redirect url StatusSeeOther, s1)
                 else Some (NotFound, s1)))"

subsection \<open>The server loop\<close>

text \<open>
  Requests are served one at a time, under the mutex. net/http recovers a handler's
  panic and the deferred \<open>Unlock\<close> has run by then; the one panic that can occur, the
  slice of an empty path, comes before every write, so the state after it is the state
  the handler found.
\<close>

datatype event = Shorten request | Visit request

fun serve :: "'d Collection \<Rightarrow> 'd state \<Rightarrow> event \<Rightarrow> (response \<times> 'd state) option" where
  "serve coll s (Shorten r) = shortenHandler coll s r"
| "serve coll s (Visit r) = redirectHandler coll s r"

definition step :: "'d Collection \<Rightarrow> 'd state \<Rightarrow> event \<Rightarrow> 'd state" where
  "step coll s ev = (case serve coll s ev of None \<Rightarrow> s | Some (resp, s') \<Rightarrow> s')"

fun run :: "'d Collection \<Rightarrow> 'd state \<Rightarrow> event list \<Rightarrow> 'd state" where
  "run coll s [] = s"
| "run coll s (ev # evs) = run coll (step coll s ev) evs"

text \<open>
  \<open>avoids coll s c evs\<close>: along the run of \<open>evs\<close> from \<open>s\<close>, no shorten request that
  passes the empty check draws the code \<open>c\<close>.
\<close>

fun avoids :: "'d Collection \<Rightarrow> 'd state \<Rightarrow> string \<Rightarrow> event list \<Rightarrow> bool" where
  "avoids coll s c [] = True"
| "avoids coll s c (ev # evs) =
     ((case ev of
         Shorten r \<Rightarrow>
           FormValue r ''url'' = [] \<or> map_option fst (generateShortCode (source s)) \<noteq> Some c
       | Visit r \<Rightarrow> True)
      \<and> avoids coll (step coll s ev) c evs)"

subsection \<open>Two stand-ins for the collection\<close>

text \<open>
  \<open>memCollection\<close> keeps the documents in a list and never fails: an insert appends, a
  lookup decodes the first document with the code and reports the driver's
  \<open>ErrNoDocuments\<close> when there is none. \<open>downCollection e\<close> fails every call with \<open>e\<close>.
\<close>

definition ErrNoDocuments :: error where
  "ErrNoDocuments = ''mongo: no documents in result''"

definition memCollection :: "URLMapping list Collection" where
  "memCollection =
     \<lparr>InsertOne = (\<lambda>d doc. (None, d @ [doc])),
      FindOne = (\<lambda>d code.
        (case find (\<lambda>doc. Code doc = code) d of
           None \<Rightarrow> Inl ErrNoDocuments
         | Some doc \<Rightarrow> Inr doc, d))\<rparr>"

definition downCollection :: "error \<Rightarrow> 'd Collection" where
  "downCollection e = \<lparr>InsertOne = (\<lambda>d doc. (Some e, d)), FindOne = (\<lambda>d code. (Inl e, d))\<rparr>"

subsection \<open>Sample states and requests\<close>

text \<open>
  \<open>boot g d\<close> is the state when the server starts to listen: nothing in the map, the
  source seeded, nothing called or logged. \<open>post u\<close> is the form request that carries
  \<open>u\<close> under \<open>url\<close>, \<open>visit c\<close> the request for the path of the code \<open>c\<close>.
\<close>

definition boot :: "rng \<Rightarrow> 'd \<Rightarrow> 'd state" where
  "boot g d = \<lparr>shortURLs = Map.empty, source = g, durable = d, calls = [], logged = []\<rparr>"

definition post :: "string \<Rightarrow> request" where
  "post u = \<lparr>Path = ''/shorten'', Form = [(''url'', u)]\<rparr>"

definition visit :: "string \<Rightarrow> request" where
  "visit c = \<lparr>Path = CHR ''/'' # c, Form = []\<rparr>"

section \<open>Properties\<close>

subsection \<open>The generator computes the six characters from six draws\<close>

lemma length_charset: "length charset = 62"
  by (simp add: charset_def)

lemma distinct_charset: "distinct charset"
  by (simp add: charset_def)

lemma index_charset: "index charset (k mod 62) = Some (charset ! (k mod 62))"
  by (simp add: index_def length_charset)

lemma Intn_charset: "Intn (length charset) r = Some (shd r mod 62, stl r)"
  by (simp add: Intn_def length_charset)

lemma fill_upt:
  "n + m \<le> length b \<Longrightarrow>
   fill [n..<n + m] b r =
     Some (take n b @ map (\<lambda>k. charset ! (k mod 62)) (stake m r) @ drop (n + m) b, sdrop m r)"
proof (induction m arbitrary: n b r)
  case 0
  then show ?case by simp
next
  case (Suc m)
  have u: "[n..<n + Suc m] = n # [Suc n..<Suc n + m]"
    by (simp add: upt_rec)
  let ?c = "charset ! (shd r mod 62)"
  from Suc.prems have l: "Suc n + m \<le> length (b[n := ?c])" by simp
  have t: "take (Suc n) (b[n := ?c]) = take n b @ [?c]"
    using Suc.prems by (simp add: take_Suc_conv_app_nth)
  show ?case
    using Suc.prems
    by (simp only: u fill.simps Intn_charset index_charset option.case prod.case
        Suc.IH [OF l] t) simp
qed

lemma generateShortCode_eq:
  "generateShortCode r = Some (map (\<lambda>k. charset ! (k mod 62)) (stake 6 r), sdrop 6 r)"
  using fill_upt [of 0 codeLength "replicate codeLength (CHR 0x00)" r]
  by (simp add: generateShortCode_def codeLength_def)

lemma stake_6: "stake 6 r =
  [shd r, shd (stl r), shd (stl (stl r)), shd (stl (stl (stl r))),
   shd (stl (stl (stl (stl r)))), shd (stl (stl (stl (stl (stl r)))))]"
  by (simp add: eval_nat_numeral)

lemma sdrop_6: "sdrop 6 r = stl (stl (stl (stl (stl (stl r)))))"
  by (simp add: eval_nat_numeral)

lemma generateShortCode_draws:
  "generateShortCode r =
     Some ([charset ! (shd r mod 62), charset ! (shd (stl r) mod 62),
            charset ! (shd (stl (stl r)) mod 62), charset ! (shd (stl (stl (stl r))) mod 62),
            charset ! (shd (stl (stl (stl (stl r)))) mod 62),
            charset ! (shd (stl (stl (stl (stl (stl r))))) mod 62)],
           stl (stl (stl (stl (stl (stl r))))))"
  by (simp add: generateShortCode_eq stake_6 sdrop_6)

lemma gen_mix: "generateShortCode ([61,62,0,25,26,52] @- sconst 7) = Some (''9aazA0'', sconst 7)"
  by (simp add: generateShortCode_draws charset_def)

subsection \<open>The character set is the alphanumeric alphabet\<close>

lemma charset_codes:
  "list_all (\<lambda>n. char_of (n::nat) \<in> set charset) ([97..<123] @ [65..<91] @ [48..<58])"
  by code_simp

lemma alnum_imp_charset: "alnum c \<Longrightarrow> c \<in> set charset"
proof -
  assume a: "alnum c"
  let ?n = "of_char c :: nat"
  from a have "(97 \<le> ?n \<and> ?n < 123) \<or> (65 \<le> ?n \<and> ?n < 91) \<or> (48 \<le> ?n \<and> ?n < 58)"
    unfolding alnum_def Let_def by arith
  then have "?n \<in> set ([97..<123] @ [65..<91] @ [48..<58])"
    by (simp only: set_append set_upt Un_iff atLeastLessThan_iff)
  with charset_codes have "char_of ?n \<in> set charset"
    unfolding list_all_iff by blast
  then show ?thesis by simp
qed

lemma charset_imp_alnum: "c \<in> set charset \<Longrightarrow> alnum c"
  by (auto simp: charset_def alnum_def)

lemma Collect_alnum: "Collect alnum = set charset"
  using alnum_imp_charset charset_imp_alnum by blast

lemma nth_charset_alnum: "alnum (charset ! (k mod 62))"
  by (rule charset_imp_alnum) (simp add: length_charset)

subsection \<open>Unfolding the handlers\<close>

lemma findInMongoDB_shortURLs: "shortURLs (snd (findInMongoDB coll code s)) = shortURLs s"
  by (simp add: findInMongoDB_def Let_def split: sum.splits prod.splits)

lemma findInMongoDB_calls: "calls (snd (findInMongoDB coll code s)) = calls s @ [CallFindOne code]"
  by (simp add: findInMongoDB_def Let_def split: sum.splits prod.splits)

lemma redirectHandler_hit:
  "Path r = CHR ''/'' # c \<Longrightarrow> shortURLs s c = Some u \<Longrightarrow>
   redirectHandler coll s r = Some (Redirect u StatusSeeOther, s)"
  by (simp add: redirectHandler_def)

lemma redirectHandler_miss:
  "Path r = CHR ''/'' # c \<Longrightarrow> shortURLs s c = None \<Longrightarrow>
   redirectHandler coll s r =
     Some (if snd (fst (findInMongoDB coll c s)) = None \<and> fst (fst (findInMongoDB coll c s)) \<noteq> []
           then Redirect (fst (fst (findInMongoDB coll c s))) StatusSeeOther else NotFound,
           snd (findInMongoDB coll c s))"
  by (simp add: redirectHandler_def split: prod.splits)

lemma redirectHandler_shortURLs:
  "redirectHandler coll s r = Some (resp, s') \<Longrightarrow> shortURLs s' = shortURLs s"
  using findInMongoDB_shortURLs [of coll "drop 1 (Path r)" s]
  by (auto simp: redirectHandler_def Let_def split: if_splits option.splits prod.splits)

lemma shortenHandler_empty:
  "FormValue r ''url'' = [] \<Longrightarrow>
   shortenHandler coll s r = Some (Error ''URL cannot be empty'' StatusBadRequest, s)"
  by (simp add: shortenHandler_def)

lemma shortenHandler_eq:
  assumes "FormValue r ''url'' = U" and "U \<noteq> []"
    and "generateShortCode (source s) = Some (c, g)"
    and "InsertOne coll (durable s) \<lparr>Code = c, URL = U\<rparr> = (err, d)"
  shows "shortenHandler coll s r =
     Some (case err of
             None \<Rightarrow> (Redirect ''/'' StatusSeeOther,
                \<lparr>shortURLs = (shortURLs s)(c \<mapsto> U), source = g, durable = d,
                 calls = calls s @ [CallInsertOne \<lparr>Code = c, URL = U\<rparr>], logged = logged s\<rparr>)
           | Some e \<Rightarrow> (Error ''Failed to save to database'' StatusInternalServerError,
                \<lparr>shortURLs = (shortURLs s)(c \<mapsto> U), source = g, durable = d,
                 calls = calls s @ [CallInsertOne \<lparr>Code = c, URL = U\<rparr>],
                 logged = logged s @ [''Error saving to MongoDB: '' @ e,
                                      ''Failed to save to database: '' @ e]\<rparr>))"
  using assms
  by (simp add: shortenHandler_def Let_def saveToMongoDB_def split: option.splits)

lemmas demo = boot_def post_def visit_def FormValue_def memCollection_def downCollection_def
  shortenHandler_def redirectHandler_def saveToMongoDB_def findInMongoDB_def step_def Let_def
  generateShortCode_draws charset_def

subsection \<open>Runs of the server\<close>

lemma step_visit_shortURLs: "shortURLs (step coll s (Visit r)) = shortURLs s"
  by (auto simp: step_def split: option.splits dest: redirectHandler_shortURLs)

lemma step_visit_miss:
  "Path r = CHR ''/'' # c \<Longrightarrow> shortURLs s c = None \<Longrightarrow>
   step coll s (Visit r) = snd (findInMongoDB coll c s)"
  by (simp add: step_def redirectHandler_miss)

lemma run_visits:
  "Path r = CHR ''/'' # c \<Longrightarrow> shortURLs s c = None \<Longrightarrow>
   shortURLs (run coll s (replicate n (Visit r))) = shortURLs s
   \<and> calls (run coll s (replicate n (Visit r))) = calls s @ replicate n (CallFindOne c)"
proof (induction n arbitrary: s)
  case 0
  then show ?case by simp
next
  case (Suc n)
  let ?s1 = "snd (findInMongoDB coll c s)"
  have m: "shortURLs ?s1 = shortURLs s"
    by (rule findInMongoDB_shortURLs)
  with Suc.prems have "shortURLs ?s1 c = None" by simp
  from Suc.IH [OF Suc.prems(1) this] m Suc.prems
  show ?case
    by (simp add: step_visit_miss findInMongoDB_calls replicate_append_same)
qed

lemma step_shorten_shortURLs:
  assumes "FormValue r ''url'' = [] \<or> map_option fst (generateShortCode (source s)) \<noteq> Some c"
  shows "shortURLs (step coll s (Shorten r)) c = shortURLs s c"
proof (cases "FormValue r ''url'' = []")
  case True
  then show ?thesis
    by (simp add: step_def shortenHandler_empty)
next
  case False
  let ?U = "FormValue r ''url''"
  obtain c' g where gen: "generateShortCode (source s) = Some (c', g)"
    by (simp add: generateShortCode_draws)
  obtain err d where i: "InsertOne coll (durable s) \<lparr>Code = c', URL = ?U\<rparr> = (err, d)"
    by (cases "InsertOne coll (durable s) \<lparr>Code = c', URL = ?U\<rparr>")
  from assms False gen have ne: "c' \<noteq> c" by auto
  from shortenHandler_eq [OF refl False gen i] ne show ?thesis
    by (cases err) (simp_all add: step_def)
qed

lemma run_avoids:
  "avoids coll s c evs \<Longrightarrow> shortURLs (run coll s evs) c = shortURLs s c"
proof (induction evs arbitrary: s)
  case Nil
  then show ?case by simp
next
  case (Cons ev evs)
  from Cons.prems have a: "avoids coll (step coll s ev) c evs" by simp
  have "shortURLs (step coll s ev) c = shortURLs s c"
  proof (cases ev)
    case (Shorten r)
    with Cons.prems show ?thesis
      by (simp add: step_shorten_shortURLs)
  next
    case (Visit r)
    then show ?thesis
      by (simp add: step_visit_shortURLs)
  qed
  with Cons.IH [OF a] show ?case by simp
qed

section \<open>Claims\<close>

text \<open>
  C1. For every non-empty URL \<open>U\<close>: when the shorten request for \<open>U\<close> succeeds (it answers
  with the redirect to \<open>/\<close>) and \<open>c\<close> is the code it drew, the request for \<open>/c\<close> served
  next is answered with the redirect to \<open>U\<close>.
\<close>

theorem round_trip:
  assumes "FormValue r ''url'' = U" and "U \<noteq> []"
    and "generateShortCode (source s) = Some (c, g)"
    and "shortenHandler coll s r = Some (Redirect ''/'' StatusSeeOther, s')"
    and "Path r' = CHR ''/'' # c"
  shows "redirectHandler coll s' r' = Some (Redirect U StatusSeeOther, s')"
proof -
  obtain err d where i: "InsertOne coll (durable s) \<lparr>Code = c, URL = U\<rparr> = (err, d)"
    by (cases "InsertOne coll (durable s) \<lparr>Code = c, URL = U\<rparr>")
  from shortenHandler_eq [OF assms(1,2,3) i] assms(4)
  have "shortURLs s' c = Some U"
    by (cases err) auto
  with assms(5) show ?thesis
    by (rule redirectHandler_hit)
qed

theorem round_trip_witness:
  "shortenHandler memCollection (boot (sconst 0) []) (post ''https://go.dev'') =
     Some (Redirect ''/'' StatusSeeOther,
       \<lparr>shortURLs = [''aaaaaa'' \<mapsto> ''https://go.dev''], source = sconst 0,
        durable = [\<lparr>Code = ''aaaaaa'', URL = ''https://go.dev''\<rparr>],
        calls = [CallInsertOne \<lparr>Code = ''aaaaaa'', URL = ''https://go.dev''\<rparr>], logged = []\<rparr>)
   \<and> redirectHandler memCollection
       \<lparr>shortURLs = [''aaaaaa'' \<mapsto> ''https://go.dev''], source = sconst 0,
        durable = [\<lparr>Code = ''aaaaaa'', URL = ''https://go.dev''\<rparr>],
        calls = [CallInsertOne \<lparr>Code = ''aaaaaa'', URL = ''https://go.dev''\<rparr>], logged = []\<rparr>
       (visit ''aaaaaa'') =
     Some (Redirect ''https://go.dev'' StatusSeeOther,
       \<lparr>shortURLs = [''aaaaaa'' \<mapsto> ''https://go.dev''], source = sconst 0,
        durable = [\<lparr>Code = ''aaaaaa'', URL = ''https://go.dev''\<rparr>],
        calls = [CallInsertOne \<lparr>Code = ''aaaaaa'', URL = ''https://go.dev''\<rparr>], logged = []\<rparr>)"
proof -
  let ?s = "boot (sconst 0) [] :: URLMapping list state"
  have h1: "FormValue (post ''https://go.dev'') ''url'' = ''https://go.dev''"
    by (simp add: post_def FormValue_def)
  have h2: "''https://go.dev'' \<noteq> []" by simp
  have h3: "generateShortCode (source ?s) = Some (''aaaaaa'', sconst 0)"
    by (simp add: boot_def generateShortCode_draws charset_def)
  have h4: "shortenHandler memCollection ?s (post ''https://go.dev'') =
     Some (Redirect ''/'' StatusSeeOther,
       \<lparr>shortURLs = [''aaaaaa'' \<mapsto> ''https://go.dev''], source = sconst 0,
        durable = [\<lparr>Code = ''aaaaaa'', URL = ''https://go.dev''\<rparr>],
        calls = [CallInsertOne \<lparr>Code = ''aaaaaa'', URL = ''https://go.dev''\<rparr>], logged = []\<rparr>)"
    by (simp add: demo)
  have h5: "Path (visit ''aaaaaa'') = CHR ''/'' # ''aaaaaa''"
    by (simp add: visit_def)
  from round_trip [OF h1 h2 h3 h4 h5] h4 show ?thesis by simp
qed

text \<open>
  C2. In every state and with every collection, a shorten request whose \<open>url\<close> is empty is
  answered with the error of status 400 and the state is the one before: no draw from
  the random source, no write to the map, no call on the collection.
\<close>

theorem empty_rejected:
  "FormValue r ''url'' = [] \<Longrightarrow>
   shortenHandler coll s r = Some (Error ''URL cannot be empty'' StatusBadRequest, s)
   \<and> StatusBadRequest = 400"
  by (simp add: shortenHandler_def StatusBadRequest_def)

theorem empty_rejected_witness:
  "shortenHandler memCollection (boot (sconst 0) []) (post []) =
     Some (Error ''URL cannot be empty'' StatusBadRequest, boot (sconst 0) [])
   \<and> shortenHandler (downCollection ''timeout'') (boot (sconst 0) ()) \<lparr>Path = ''/shorten'', Form = []\<rparr> =
     Some (Error ''URL cannot be empty'' StatusBadRequest, boot (sconst 0) ())"
proof -
  have h1: "FormValue (post []) ''url'' = []"
    by (simp add: post_def FormValue_def)
  have h2: "FormValue \<lparr>Path = ''/shorten'', Form = []\<rparr> ''url'' = []"
    by (simp add: FormValue_def)
  from empty_rejected [OF h1] empty_rejected [OF h2] show ?thesis by blast
qed

text \<open>
  C3. When the code of the request is a key of \<open>shortURLs\<close>, the answer is the redirect to
  the URL the map holds for it, and the state is the one before: the collection is not
  called, whatever collection it is, also one whose every call fails.
\<close>

theorem fast_tier_first:
  assumes "Path r = CHR ''/'' # c" and "shortURLs s c = Some u"
  shows "redirectHandler coll s r = Some (Redirect u StatusSeeOther, s)
       \<and> redirectHandler (downCollection e) s r = Some (Redirect u StatusSeeOther, s)"
  using assms by (simp add: redirectHandler_def)

theorem fast_tier_first_witness:
  "redirectHandler memCollection
     \<lparr>shortURLs = [''abc123'' \<mapsto> ''https://go.dev''], source = sconst 0,
      durable = [\<lparr>Code = ''abc123'', URL = ''https://example.org''\<rparr>], calls = [], logged = []\<rparr>
     (visit ''abc123'') =
   Some (Redirect ''https://go.dev'' StatusSeeOther,
     \<lparr>shortURLs = [''abc123'' \<mapsto> ''https://go.dev''], source = sconst 0,
      durable = [\<lparr>Code = ''abc123'', URL = ''https://example.org''\<rparr>], calls = [], logged = []\<rparr>)
   \<and> redirectHandler (downCollection ''server selection timeout'')
     \<lparr>shortURLs = [''abc123'' \<mapsto> ''https://go.dev''], source = sconst 0,
      durable = [\<lparr>Code = ''abc123'', URL = ''https://example.org''\<rparr>], calls = [], logged = []\<rparr>
     (visit ''abc123'') =
   Some (Redirect ''https://go.dev'' StatusSeeOther,
     \<lparr>shortURLs = [''abc123'' \<mapsto> ''https://go.dev''], source = sconst 0,
      durable = [\<lparr>Code = ''abc123'', URL = ''https://example.org''\<rparr>], calls = [], logged = []\<rparr>)"
proof -
  let ?s = "\<lparr>shortURLs = [''abc123'' \<mapsto> ''https://go.dev''], source = sconst 0,
      durable = [\<lparr>Code = ''abc123'', URL = ''https://example.org''\<rparr>], calls = [], logged = []\<rparr>"
  have h1: "Path (visit ''abc123'') = CHR ''/'' # ''abc123''"
    by (simp add: visit_def)
  have h2: "shortURLs ?s ''abc123'' = Some ''https://go.dev''"
    by simp
  from fast_tier_first [OF h1 h2, of memCollection "''server selection timeout''"]
  show ?thesis .
qed

text \<open>
  C4, as written, fails: a document of the durable tier may hold the empty URL, and the
  lookup that finds it is answered with 404, not with the stored URL.
\<close>

theorem stored_empty_url_is_404:
  "shortURLs (boot (sconst 0) [\<lparr>Code = ''abc123'', URL = []\<rparr>]) ''abc123'' = None
   \<and> FindOne memCollection [\<lparr>Code = ''abc123'', URL = []\<rparr>] ''abc123'' =
       (Inr \<lparr>Code = ''abc123'', URL = []\<rparr>, [\<lparr>Code = ''abc123'', URL = []\<rparr>])
   \<and> redirectHandler memCollection (boot (sconst 0) [\<lparr>Code = ''abc123'', URL = []\<rparr>])
        (visit ''abc123'') =
       Some (Error ''404 page not found'' 404,
         \<lparr>shortURLs = Map.empty, source = sconst 0, durable = [\<lparr>Code = ''abc123'', URL = []\<rparr>],
          calls = [CallFindOne ''abc123''], logged = []\<rparr>)"
  by (simp add: demo NotFound_def StatusNotFound_def)

text \<open>
  C4, amended. When the code is not a key of \<open>shortURLs\<close> and the lookup in the durable
  tier returns a document whose URL is not empty, the answer is the redirect to that
  URL; the collection has been called once and the map is as before.
\<close>

theorem durable_fallback:
  assumes "Path r = CHR ''/'' # c" and "shortURLs s c = None"
    and "FindOne coll (durable s) c = (Inr doc, d)" and "URL doc \<noteq> []"
  shows "redirectHandler coll s r =
     Some (Redirect (URL doc) StatusSeeOther, s\<lparr>durable := d, calls := calls s @ [CallFindOne c]\<rparr>)"
  using assms by (simp add: redirectHandler_def findInMongoDB_def)

theorem durable_fallback_witness:
  "redirectHandler memCollection (boot (sconst 0) [\<lparr>Code = ''abc123'', URL = ''https://go.dev''\<rparr>])
     (visit ''abc123'') =
   Some (Redirect ''https://go.dev'' StatusSeeOther,
     \<lparr>shortURLs = Map.empty, source = sconst 0,
      durable = [\<lparr>Code = ''abc123'', URL = ''https://go.dev''\<rparr>],
      calls = [CallFindOne ''abc123''], logged = []\<rparr>)"
proof -
  let ?doc = "\<lparr>Code = ''abc123'', URL = ''https://go.dev''\<rparr>"
  let ?s = "boot (sconst 0) [?doc]"
  have h1: "Path (visit ''abc123'') = CHR ''/'' # ''abc123''"
    by (simp add: visit_def)
  have h2: "shortURLs ?s ''abc123'' = None"
    by (simp add: boot_def)
  have h3: "FindOne memCollection (durable ?s) ''abc123'' = (Inr ?doc, [?doc])"
    by (simp add: boot_def memCollection_def)
  have h4: "URL ?doc \<noteq> []" by simp
  from durable_fallback [OF h1 h2 h3 h4] show ?thesis
    by (simp add: boot_def)
qed

text \<open>
  C5. When the code is not a key of \<open>shortURLs\<close>, the answer is the same 404 whether the
  lookup in the durable tier reports an error of any kind or, on a collection that
  works, finds no document with the code (which the driver reports as
  \<open>ErrNoDocuments\<close>). The two cases differ in the server's log only.
\<close>

theorem miss_not_found:
  assumes "Path r = CHR ''/'' # c"
  shows "(shortURLs s c = None \<and> FindOne coll (durable s) c = (Inl e, d) \<longrightarrow>
            redirectHandler coll s r =
              Some (NotFound, s\<lparr>durable := d, calls := calls s @ [CallFindOne c],
                     logged := logged s @ [''Error finding URL in MongoDB: '' @ e]\<rparr>))
       \<and> (shortURLs t c = None \<and> find (\<lambda>doc. Code doc = c) (durable t) = None \<longrightarrow>
            redirectHandler memCollection t r =
              Some (NotFound, t\<lparr>calls := calls t @ [CallFindOne c],
                     logged := logged t @ [''Error finding URL in MongoDB: '' @ ErrNoDocuments]\<rparr>))
       \<and> NotFound = Error ''404 page not found'' 404"
  using assms
  by (simp add: redirectHandler_def findInMongoDB_def memCollection_def NotFound_def
      StatusNotFound_def)

theorem miss_not_found_witness:
  "redirectHandler (downCollection ''server selection timeout'')
     (boot (sconst 0) [\<lparr>Code = ''abc123'', URL = ''https://go.dev''\<rparr>]) (visit ''abc123'') =
   Some (NotFound,
     \<lparr>shortURLs = Map.empty, source = sconst 0,
      durable = [\<lparr>Code = ''abc123'', URL = ''https://go.dev''\<rparr>],
      calls = [CallFindOne ''abc123''],
      logged = [''Error finding URL in MongoDB: server selection timeout'']\<rparr>)
   \<and> redirectHandler memCollection
     (boot (sconst 0) [\<lparr>Code = ''abc123'', URL = ''https://go.dev''\<rparr>]) (visit ''nocode'') =
   Some (NotFound,
     \<lparr>shortURLs = Map.empty, source = sconst 0,
      durable = [\<lparr>Code = ''abc123'', URL = ''https://go.dev''\<rparr>],
      calls = [CallFindOne ''nocode''],
      logged = [''Error finding URL in MongoDB: mongo: no documents in result'']\<rparr>)"
proof -
  let ?doc = "\<lparr>Code = ''abc123'', URL = ''https://go.dev''\<rparr>"
  let ?s = "boot (sconst 0) [?doc]"
  let ?D = "downCollection ''server selection timeout'' :: URLMapping list Collection"
  have p1: "Path (visit ''abc123'') = CHR ''/'' # ''abc123''"
    by (simp add: visit_def)
  have p2: "Path (visit ''nocode'') = CHR ''/'' # ''nocode''"
    by (simp add: visit_def)
  have a: "shortURLs ?s ''abc123'' = None
      \<and> FindOne ?D (durable ?s) ''abc123'' = (Inl ''server selection timeout'', [?doc])"
    by (simp add: boot_def downCollection_def)
  have b: "shortURLs ?s ''nocode'' = None \<and> find (\<lambda>doc. Code doc = ''nocode'') (durable ?s) = None"
    by (simp add: boot_def)
  from miss_not_found [OF p1, of ?s ?D "''server selection timeout''" "[?doc]" ?s] a
  have x: "redirectHandler ?D ?s (visit ''abc123'') =
      Some (NotFound, ?s\<lparr>durable := [?doc], calls := calls ?s @ [CallFindOne ''abc123''],
        logged := logged ?s @ [''Error finding URL in MongoDB: '' @ ''server selection timeout'']\<rparr>)"
    by blast
  from miss_not_found [OF p2, of ?s ?D "''x''" "[?doc]" ?s] b
  have y: "redirectHandler memCollection ?s (visit ''nocode'') =
      Some (NotFound, ?s\<lparr>calls := calls ?s @ [CallFindOne ''nocode''],
        logged := logged ?s @ [''Error finding URL in MongoDB: '' @ ErrNoDocuments]\<rparr>)"
    by blast
  from x y show ?thesis
    by (simp add: boot_def ErrNoDocuments_def)
qed

text \<open>
  C6. For every state of the random source the generator returns, and what it returns is
  a string of exactly 6 characters, each of them in the 62-symbol alphabet of the
  letters a to z, A to Z and the digits 0 to 9, which is the set of the characters of
  \<open>charset\<close>.
\<close>

theorem generateShortCode_shape:
  "\<exists>code g. generateShortCode r = Some (code, g) \<and> length code = 6
      \<and> list_all alnum code \<and> set code \<subseteq> set charset
      \<and> Collect alnum = set charset \<and> card (set charset) = 62"
  by (simp add: generateShortCode_draws nth_charset_alnum length_charset Collect_alnum
      distinct_card distinct_charset)

text \<open>
  C7, as written, fails in its last part: the entry stays only until a later shorten
  request draws the same code, which overwrites it. Here the save of the first request
  fails, the second request draws the same six numbers, and the code then leads to the
  second URL.
\<close>

theorem colliding_create_overwrites:
  "shortenHandler (downCollection ''server selection timeout'')
      (boot ([3, 14, 15, 9, 26, 5, 3, 14, 15, 9, 26, 5] @- sconst 0) ()) (post ''https://go.dev'') =
     Some (Error ''Failed to save to database'' 500,
       \<lparr>shortURLs = [''dopjAf'' \<mapsto> ''https://go.dev''],
        source = [3, 14, 15, 9, 26, 5] @- sconst 0, durable = (),
        calls = [CallInsertOne \<lparr>Code = ''dopjAf'', URL = ''https://go.dev''\<rparr>],
        logged = [''Error saving to MongoDB: server selection timeout'',
                  ''Failed to save to database: server selection timeout'']\<rparr>)
   \<and> map_option fst (redirectHandler (downCollection ''server selection timeout'')
        (run (downCollection ''server selection timeout'')
           (boot ([3, 14, 15, 9, 26, 5, 3, 14, 15, 9, 26, 5] @- sconst 0) ())
           [Shorten (post ''https://go.dev''), Shorten (post ''https://example.org'')])
        (visit ''dopjAf'')) =
     Some (Redirect ''https://example.org'' 303)"
  by (simp add: demo StatusSeeOther_def StatusInternalServerError_def)

text \<open>
  C7, amended. For every non-empty URL \<open>U\<close>: when the insert into the durable tier fails,
  the shorten request is answered with the error of status 500, the entry of the drawn
  code \<open>c\<close> for \<open>U\<close> is in the map all the same, and after every sequence of further
  requests in which no shorten request draws \<open>c\<close> again the request for \<open>/c\<close> is
  answered with the redirect to \<open>U\<close>.
\<close>

theorem failed_save_keeps_fast_entry:
  assumes "FormValue r ''url'' = U" and "U \<noteq> []"
    and "generateShortCode (source s) = Some (c, g)"
    and "InsertOne coll (durable s) \<lparr>Code = c, URL = U\<rparr> = (Some e, d)"
    and "Path r' = CHR ''/'' # c"
  shows "\<exists>s'. shortenHandler coll s r =
            Some (Error ''Failed to save to database'' StatusInternalServerError, s')
          \<and> StatusInternalServerError = 500
          \<and> shortURLs s' = (shortURLs s)(c \<mapsto> U)
          \<and> (\<forall>evs. avoids coll s' c evs \<longrightarrow>
                redirectHandler coll (run coll s' evs) r' =
                  Some (Redirect U StatusSeeOther, run coll s' evs))"
proof -
  let ?s' = "\<lparr>shortURLs = (shortURLs s)(c \<mapsto> U), source = g, durable = d,
      calls = calls s @ [CallInsertOne \<lparr>Code = c, URL = U\<rparr>],
      logged = logged s @ [''Error saving to MongoDB: '' @ e,
                           ''Failed to save to database: '' @ e]\<rparr>"
  from shortenHandler_eq [OF assms(1-4)]
  have h: "shortenHandler coll s r =
      Some (Error ''Failed to save to database'' StatusInternalServerError, ?s')"
    by simp
  have "redirectHandler coll (run coll ?s' evs) r' =
      Some (Redirect U StatusSeeOther, run coll ?s' evs)" if "avoids coll ?s' c evs" for evs
  proof -
    from run_avoids [OF that] have "shortURLs (run coll ?s' evs) c = Some U" by simp
    with assms(5) show ?thesis by (rule redirectHandler_hit)
  qed
  with h show ?thesis
    by (simp add: StatusInternalServerError_def)
qed

theorem failed_save_keeps_fast_entry_witness:
  "shortenHandler (downCollection ''server selection timeout'')
      (boot ([3, 14, 15, 9, 26, 5] @- sconst 0) ()) (post ''https://go.dev'') =
     Some (Error ''Failed to save to database'' StatusInternalServerError,
       \<lparr>shortURLs = [''dopjAf'' \<mapsto> ''https://go.dev''], source = sconst 0, durable = (),
        calls = [CallInsertOne \<lparr>Code = ''dopjAf'', URL = ''https://go.dev''\<rparr>],
        logged = [''Error saving to MongoDB: server selection timeout'',
                  ''Failed to save to database: server selection timeout'']\<rparr>)
   \<and> map_option fst (redirectHandler (downCollection ''server selection timeout'')
        (run (downCollection ''server selection timeout'')
           \<lparr>shortURLs = [''dopjAf'' \<mapsto> ''https://go.dev''], source = sconst 0, durable = (),
            calls = [CallInsertOne \<lparr>Code = ''dopjAf'', URL = ''https://go.dev''\<rparr>],
            logged = [''Error saving to MongoDB: server selection timeout'',
                      ''Failed to save to database: server selection timeout'']\<rparr>
           [Visit (visit ''nocode''), Shorten (post ''https://example.org''), Shorten (post [])])
        (visit ''dopjAf'')) =
     Some (Redirect ''https://go.dev'' StatusSeeOther)"
proof -
  let ?D = "downCollection ''server selection timeout'' :: unit Collection"
  let ?s = "boot ([3, 14, 15, 9, 26, 5] @- sconst 0) ()"
  let ?s1 = "\<lparr>shortURLs = [''dopjAf'' \<mapsto> ''https://go.dev''], source = sconst 0, durable = (),
            calls = [CallInsertOne \<lparr>Code = ''dopjAf'', URL = ''https://go.dev''\<rparr>],
            logged = [''Error saving to MongoDB: server selection timeout'',
                      ''Failed to save to database: server selection timeout'']\<rparr>"
  let ?evs = "[Visit (visit ''nocode''), Shorten (post ''https://example.org''), Shorten (post [])]"
  have h1: "FormValue (post ''https://go.dev'') ''url'' = ''https://go.dev''"
    by (simp add: post_def FormValue_def)
  have h2: "''https://go.dev'' \<noteq> []" by simp
  have h3: "generateShortCode (source ?s) = Some (''dopjAf'', sconst 0)"
    by (simp add: boot_def generateShortCode_draws charset_def)
  have h4: "InsertOne ?D (durable ?s) \<lparr>Code = ''dopjAf'', URL = ''https://go.dev''\<rparr> =
      (Some ''server selection timeout'', ())"
    by (simp add: downCollection_def)
  have h5: "Path (visit ''dopjAf'') = CHR ''/'' # ''dopjAf''"
    by (simp add: visit_def)
  have first: "shortenHandler ?D ?s (post ''https://go.dev'') =
      Some (Error ''Failed to save to database'' StatusInternalServerError, ?s1)"
    by (simp add: demo)
  have av: "avoids ?D ?s1 ''dopjAf'' ?evs"
    by (simp add: demo)
  from failed_save_keeps_fast_entry [OF h1 h2 h3 h4 h5]
  obtain s' where
    a: "shortenHandler ?D ?s (post ''https://go.dev'') =
          Some (Error ''Failed to save to database'' StatusInternalServerError, s')"
    and b: "\<forall>evs. avoids ?D s' ''dopjAf'' evs \<longrightarrow>
          redirectHandler ?D (run ?D s' evs) (visit ''dopjAf'') =
            Some (Redirect ''https://go.dev'' StatusSeeOther, run ?D s' evs)"
    by blast
  from a first have "s' = ?s1" by simp
  with b av have "redirectHandler ?D (run ?D ?s1 ?evs) (visit ''dopjAf'') =
      Some (Redirect ''https://go.dev'' StatusSeeOther, run ?D ?s1 ?evs)"
    by blast
  with first show ?thesis by simp
qed

text \<open>
  C8, as written, fails: the answer to a successful shorten request is the redirect to
  \<open>/\<close>, the same for every code. Two runs that draw different codes answer alike.
\<close>

theorem equal_answers_for_different_codes:
  "map_option fst (shortenHandler memCollection (boot (sconst 0) []) (post ''https://go.dev'')) =
     Some (Redirect ''/'' 303)
   \<and> map_option fst (generateShortCode (source (boot (sconst 0) []))) = Some ''aaaaaa''
   \<and> map_option fst (shortenHandler memCollection (boot (sconst 1) []) (post ''https://go.dev'')) =
     Some (Redirect ''/'' 303)
   \<and> map_option fst (generateShortCode (source (boot (sconst 1) []))) = Some ''bbbbbb''"
  by (simp add: demo StatusSeeOther_def)

text \<open>
  C8, amended. For every non-empty URL \<open>U\<close>, a shorten request whose insert into the
  durable tier succeeds is answered with the redirect to \<open>/\<close> with status 303, which
  does not carry the code; the drawn code is the key under which \<open>U\<close> is put into the map
  and the code of the document given to the collection.
\<close>

theorem create_success_response:
  assumes "FormValue r ''url'' = U" and "U \<noteq> []"
    and "generateShortCode (source s) = Some (c, g)"
    and "InsertOne coll (durable s) \<lparr>Code = c, URL = U\<rparr> = (None, d)"
  shows "shortenHandler coll s r =
     Some (Redirect ''/'' StatusSeeOther,
       \<lparr>shortURLs = (shortURLs s)(c \<mapsto> U), source = g, durable = d,
        calls = calls s @ [CallInsertOne \<lparr>Code = c, URL = U\<rparr>], logged = logged s\<rparr>)"
  using shortenHandler_eq [OF assms] by simp

theorem create_success_response_witness:
  "shortenHandler memCollection
     \<lparr>shortURLs = [''aaaaaa'' \<mapsto> ''https://example.org''],
      source = [61, 62, 0, 25, 26, 52] @- sconst 7,
      durable = [\<lparr>Code = ''aaaaaa'', URL = ''https://example.org''\<rparr>],
      calls = [CallInsertOne \<lparr>Code = ''aaaaaa'', URL = ''https://example.org''\<rparr>], logged = []\<rparr>
     (post ''https://go.dev'') =
   Some (Redirect ''/'' StatusSeeOther,
     \<lparr>shortURLs = [''aaaaaa'' \<mapsto> ''https://example.org'', ''9aazA0'' \<mapsto> ''https://go.dev''],
      source = sconst 7,
      durable = [\<lparr>Code = ''aaaaaa'', URL = ''https://example.org''\<rparr>,
                 \<lparr>Code = ''9aazA0'', URL = ''https://go.dev''\<rparr>],
      calls = [CallInsertOne \<lparr>Code = ''aaaaaa'', URL = ''https://example.org''\<rparr>,
               CallInsertOne \<lparr>Code = ''9aazA0'', URL = ''https://go.dev''\<rparr>], logged = []\<rparr>)"
proof -
  let ?old = "\<lparr>Code = ''aaaaaa'', URL = ''https://example.org''\<rparr>"
  let ?new = "\<lparr>Code = ''9aazA0'', URL = ''https://go.dev''\<rparr>"
  let ?s = "\<lparr>shortURLs = [''aaaaaa'' \<mapsto> ''https://example.org''],
      source = [61, 62, 0, 25, 26, 52] @- sconst 7,
      durable = [?old], calls = [CallInsertOne ?old], logged = []\<rparr>"
  have h1: "FormValue (post ''https://go.dev'') ''url'' = ''https://go.dev''"
    by (simp add: post_def FormValue_def)
  have h2: "''https://go.dev'' \<noteq> []" by simp
  have h3: "generateShortCode (source ?s) = Some (''9aazA0'', sconst 7)"
    by (simp add: generateShortCode_draws charset_def)
  have h4: "InsertOne memCollection (durable ?s) ?new = (None, [?old, ?new])"
    by (simp add: memCollection_def)
  from create_success_response [OF h1 h2 h3 h4] show ?thesis by simp
qed

text \<open>
  C9. For every state and every request for a code, the redirect handler answers and the
  map \<open>shortURLs\<close> after it is the map before it. In particular a code that is not in
  the map is still not in it after a lookup in the durable tier, whatever the lookup
  found: \<open>n\<close> requests for it in a row make \<open>n\<close> calls of \<open>FindOne\<close>.
\<close>

theorem resolve_keeps_fast_tier:
  assumes "Path r = CHR ''/'' # c"
  shows "(\<exists>resp s'. redirectHandler coll s r = Some (resp, s') \<and> shortURLs s' = shortURLs s)
       \<and> (shortURLs s c = None \<longrightarrow>
            shortURLs (run coll s (replicate n (Visit r))) = shortURLs s
            \<and> calls (run coll s (replicate n (Visit r))) = calls s @ replicate n (CallFindOne c))"
proof (cases "shortURLs s c")
  case None
  with assms show ?thesis
    by (simp add: redirectHandler_miss findInMongoDB_shortURLs run_visits)
next
  case (Some u)
  with assms show ?thesis
    by (simp add: redirectHandler_hit)
qed

theorem resolve_keeps_fast_tier_witness:
  "redirectHandler memCollection (boot (sconst 0) [\<lparr>Code = ''abc123'', URL = ''https://go.dev''\<rparr>])
      (visit ''abc123'') =
     Some (Redirect ''https://go.dev'' StatusSeeOther,
       \<lparr>shortURLs = Map.empty, source = sconst 0,
        durable = [\<lparr>Code = ''abc123'', URL = ''https://go.dev''\<rparr>],
        calls = [CallFindOne ''abc123''], logged = []\<rparr>)
   \<and> shortURLs (run memCollection (boot (sconst 0) [\<lparr>Code = ''abc123'', URL = ''https://go.dev''\<rparr>])
        [Visit (visit ''abc123''), Visit (visit ''abc123''), Visit (visit ''abc123'')]) = Map.empty
   \<and> calls (run memCollection (boot (sconst 0) [\<lparr>Code = ''abc123'', URL = ''https://go.dev''\<rparr>])
        [Visit (visit ''abc123''), Visit (visit ''abc123''), Visit (visit ''abc123'')]) =
      [CallFindOne ''abc123'', CallFindOne ''abc123'', CallFindOne ''abc123'']"
proof -
  let ?doc = "\<lparr>Code = ''abc123'', URL = ''https://go.dev''\<rparr>"
  let ?s = "boot (sconst 0) [?doc]"
  have h1: "Path (visit ''abc123'') = CHR ''/'' # ''abc123''"
    by (simp add: visit_def)
  have h2: "shortURLs ?s ''abc123'' = None"
    by (simp add: boot_def)
  have r3: "replicate 3 (Visit (visit ''abc123'')) =
      [Visit (visit ''abc123''), Visit (visit ''abc123''), Visit (visit ''abc123'')]"
    by (simp add: eval_nat_numeral)
  have c3: "replicate 3 (CallFindOne ''abc123'') =
      [CallFindOne ''abc123'', CallFindOne ''abc123'', CallFindOne ''abc123'']"
    by (simp add: eval_nat_numeral)
  have first: "redirectHandler memCollection ?s (visit ''abc123'') =
     Some (Redirect ''https://go.dev'' StatusSeeOther,
       \<lparr>shortURLs = Map.empty, source = sconst 0, durable = [?doc],
        calls = [CallFindOne ''abc123''], logged = []\<rparr>)"
    by (simp add: demo)
  from resolve_keeps_fast_tier [OF h1, of memCollection ?s 3] h2
  have "shortURLs (run memCollection ?s (replicate 3 (Visit (visit ''abc123'')))) = shortURLs ?s
      \<and> calls (run memCollection ?s (replicate 3 (Visit (visit ''abc123'')))) =
          calls ?s @ replicate 3 (CallFindOne ''abc123'')"
    by blast
  then have "shortURLs (run memCollection ?s
        [Visit (visit ''abc123''), Visit (visit ''abc123''), Visit (visit ''abc123'')]) = Map.empty
      \<and> calls (run memCollection ?s
        [Visit (visit ''abc123''), Visit (visit ''abc123''), Visit (visit ''abc123'')]) =
        [CallFindOne ''abc123'', CallFindOne ''abc123'', CallFindOne ''abc123'']"
    unfolding r3 c3 by (simp add: boot_def)
  with first show ?thesis by blast
qed

text \<open>
  C10. When the code is not a key of \<open>shortURLs\<close> and the lookup in the durable tier
  succeeds with a document whose URL is the empty string, the answer is 404, not a
  redirect to the empty URL.
\<close>

theorem empty_stored_url_not_found:
  assumes "Path r = CHR ''/'' # c" and "shortURLs s c = None"
    and "FindOne coll (durable s) c = (Inr doc, d)" and "URL doc = []"
  shows "redirectHandler coll s r =
     Some (NotFound, s\<lparr>durable := d, calls := calls s @ [CallFindOne c]\<rparr>)
     \<and> NotFound = Error ''404 page not found'' 404"
  using assms by (simp add: redirectHandler_def findInMongoDB_def NotFound_def StatusNotFound_def)

theorem empty_stored_url_not_found_witness:
  "redirectHandler memCollection (boot (sconst 0) [\<lparr>Code = ''xyz789'', URL = []\<rparr>])
     (visit ''xyz789'') =
   Some (NotFound,
     \<lparr>shortURLs = Map.empty, source = sconst 0, durable = [\<lparr>Code = ''xyz789'', URL = []\<rparr>],
      calls = [CallFindOne ''xyz789''], logged = []\<rparr>)"
proof -
  let ?doc = "\<lparr>Code = ''xyz789'', URL = []\<rparr>"
  let ?s = "boot (sconst 0) [?doc]"
  have h1: "Path (visit ''xyz789'') = CHR ''/'' # ''xyz789''"
    by (simp add: visit_def)
  have h2: "shortURLs ?s ''xyz789'' = None"
    by (simp add: boot_def)
  have h3: "FindOne memCollection (durable ?s) ''xyz789'' = (Inr ?doc, [?doc])"
    by (simp add: boot_def memCollection_def)
  have h4: "URL ?doc = []" by simp
  from empty_stored_url_not_found [OF h1 h2 h3 h4] show ?thesis
    by (simp add: boot_def)
qed

end
